theory Spec2Isabelle
  imports Main "HOL-Library.Word"
begin

section \<open>Configuration documents\<close>

text \<open>
  A configuration document is the Python value that \<^verbatim>\<open>yaml.safe_load\<close> hands to the
  service: \<^verbatim>\<open>None\<close>, a bool, an int (unbounded), a float (an IEEE double, kept as its 64
  bits), a str, a list or a dict.  A dict keeps its insertion order and is an association
  list; its keys are Python values themselves (YAML allows \<^verbatim>\<open>1: x\<close>).  Strings are
  lists of characters.
\<close>

datatype pyval =
    PNone
  | PBool bool
  | PInt int
  | PFloat "64 word"
  | PStr string
  | PList "pyval list"
  | PDict "(pyval \<times> pyval) list"

type_synonym pydict = "(pyval \<times> pyval) list"

text \<open>\<^verbatim>\<open>key in d\<close>, \<^verbatim>\<open>d[key]\<close> and \<^verbatim>\<open>d.get(key)\<close> for a string key.  \<^verbatim>\<open>d.get\<close> gives
  \<^verbatim>\<open>None\<close> when the key is missing; \<^verbatim>\<open>d[key]\<close> is only used by the source under
  \<^verbatim>\<open>key in d\<close>.\<close>

definition py_contains :: "pydict \<Rightarrow> string \<Rightarrow> bool" where
  "py_contains d k = (map_of d (PStr k) \<noteq> None)"

definition py_get :: "pydict \<Rightarrow> string \<Rightarrow> pyval" where
  "py_get d k = (case map_of d (PStr k) of None \<Rightarrow> PNone | Some v \<Rightarrow> v)"

text \<open>\<^verbatim>\<open>d[key] = v\<close>: an existing key keeps its place, a new key goes to the end.\<close>

fun py_setitem :: "('k \<times> 'v) list \<Rightarrow> 'k \<Rightarrow> 'v \<Rightarrow> ('k \<times> 'v) list" where
  "py_setitem [] k v = [(k, v)]"
| "py_setitem ((k', v') # d) k v =
     (if k' = k then (k, v) # d else (k', v') # py_setitem d k v)"

section \<open>The YAML parser front end\<close>

text \<open>
  \<^verbatim>\<open>YAMLValidator.parse_yaml\<close> of \<^verbatim>\<open>validation/validators.py\<close>.  \<^verbatim>\<open>yaml.safe_load\<close> belongs
  to the YAML library and is a parameter: it gives the loaded value or one of the
  exceptions the source tells apart.  \<^verbatim>\<open>str.strip()\<close> removes the characters for which
  \<^verbatim>\<open>str.isspace()\<close> holds; a character stands for its code point below 256.
\<close>

datatype yaml_error = ScannerError string | ParserError string | OtherYamlError string

definition py_isspace :: "char \<Rightarrow> bool" where
  "py_isspace c =
     (of_char c \<in> {9, 10, 11, 12, 13, 28, 29, 30, 31, 32, 133, 160 :: nat})"

definition py_strip :: "string \<Rightarrow> string" where
  "py_strip s = rev (dropWhile py_isspace (rev (dropWhile py_isspace s)))"

definition parse_yaml ::
  "(string \<Rightarrow> yaml_error + pyval) \<Rightarrow> string \<Rightarrow> bool \<times> pydict option \<times> string option" where
  "parse_yaml safe_load yaml_content =
     (if yaml_content = [] \<or> py_strip yaml_content = []
      then (False, None, Some ''Empty YAML content'')
      else
        (case safe_load yaml_content of
           Inr data \<Rightarrow>
             (case data of
                PDict d \<Rightarrow> (True, Some d, None)
              | _ \<Rightarrow> (False, None, Some ''YAML must represent a dictionary/object''))
         | Inl (ScannerError e) \<Rightarrow> (False, None, Some (''YAML syntax error: '' @ e))
         | Inl (ParserError e) \<Rightarrow> (False, None, Some (''YAML parsing error: '' @ e))
         | Inl (OtherYamlError e) \<Rightarrow> (False, None, Some (''YAML processing error: '' @ e))))"

section \<open>The schema validator\<close>

subsection \<open>The schema library\<close>

text \<open>
  \<^verbatim>\<open>validation/schemas.py\<close> declares its two schemas with the \<^verbatim>\<open>schema\<close> library.  The
  part of the library the declarations use is modelled here: a class (\<^verbatim>\<open>int\<close>,
  \<^verbatim>\<open>str\<close>, \<^verbatim>\<open>object\<close>), a literal, a callable, \<^verbatim>\<open>And\<close>, \<^verbatim>\<open>Or\<close>, \<^verbatim>\<open>Optional\<close> and a
  dict of key schemas and value schemas.  A failed validation raises \<^verbatim>\<open>SchemaError\<close>; the
  error is kept structured, its text is the library's.
\<close>

datatype pytype = TBool | TInt | TFloat | TStr | TDict | TObject

fun isinstance :: "pyval \<Rightarrow> pytype \<Rightarrow> bool" where
  "isinstance v TObject = True"
| "isinstance (PBool b) TBool = True"
| "isinstance (PBool b) TInt = True"
| "isinstance (PInt n) TInt = True"
| "isinstance (PFloat w) TFloat = True"
| "isinstance (PStr s) TStr = True"
| "isinstance (PDict d) TDict = True"
| "isinstance v t = False"

text \<open>The callables of the two schemas: \<^verbatim>\<open>lambda v: v > 0\<close>,
  \<^verbatim>\<open>lambda p: 1 <= p <= 65535\<close> and the builtin \<^verbatim>\<open>len\<close>.\<close>

datatype callable = Lambda_version_positive | Lambda_port_in_range | Builtin_len

datatype schema =
    SType pytype
  | SLit string
  | SCallable callable
  | SAnd "schema list"
  | SOr "schema list"
  | SOptional schema
  | SDict "(schema \<times> schema) list"

datatype schema_error =
    SchemaUnexpectedTypeError pyval pytype
  | SchemaLiteralError string pyval
  | SchemaCallableError pyval
  | SchemaOrError pyval
  | SchemaKeyError pyval schema_error
  | SchemaMissingKeyError "schema list"
  | SchemaWrongKeyError "pyval list"
  | ValidationError schema_error

fun is_optional :: "schema \<Rightarrow> bool" where
  "is_optional (SOptional k) = True"
| "is_optional k = False"

text \<open>The order in which the library tries the keys of a dict schema
  (\<^verbatim>\<open>sorted(s, key=self._dict_key_priority)\<close>): twice the priority, so that the half
  step of \<^verbatim>\<open>Optional\<close> is a natural number.\<close>

fun dict_key_priority :: "schema \<Rightarrow> nat" where
  "dict_key_priority (SLit s) = 0"
| "dict_key_priority (SCallable f) = 2"
| "dict_key_priority (SAnd ss) = 4"
| "dict_key_priority (SOr ss) = 4"
| "dict_key_priority (SType t) = 6"
| "dict_key_priority (SDict es) = 8"
| "dict_key_priority (SOptional k) = dict_key_priority k + 1"

text \<open>Whether a callable returns a true value without raising.  Each stands behind a
  class in an \<^verbatim>\<open>And\<close>, which lets only ints (the two lambdas) or only strings
  (\<^verbatim>\<open>len\<close>) reach it; \<^verbatim>\<open>len\<close> raises on a value without a length.\<close>

fun call_true :: "callable \<Rightarrow> pyval \<Rightarrow> bool" where
  "call_true Lambda_version_positive v = (case v of PInt n \<Rightarrow> n > 0 | _ \<Rightarrow> False)"
| "call_true Lambda_port_in_range p = (case p of PInt n \<Rightarrow> 1 \<le> n \<and> n \<le> 65535 | _ \<Rightarrow> False)"
| "call_true Builtin_len v =
     (case v of PStr s \<Rightarrow> s \<noteq> [] | PList xs \<Rightarrow> xs \<noteq> [] | PDict d \<Rightarrow> d \<noteq> [] | _ \<Rightarrow> False)"

text \<open>The first exception of a sequence of steps, or all their results.\<close>

fun first_error :: "('e + 'a) list \<Rightarrow> 'e + 'a list" where
  "first_error [] = Inr []"
| "first_error (Inl e # rs) = Inl e"
| "first_error (Inr x # rs) = (case first_error rs of Inl e \<Rightarrow> Inl e | Inr xs \<Rightarrow> Inr (x # xs))"

text \<open>
  \<^verbatim>\<open>Schema.validate\<close>.  A class accepts its instances, except that \<^verbatim>\<open>int\<close> refuses a
  bool; a literal accepts the equal value; a callable accepts the values on which it
  returns a true value without raising.  For a dict schema the items of the data are
  visited with the dict values last; each key is tried against the schema keys in order
  (\<open>match_key\<close>), the first schema key that accepts it decides with its value schema, and
  a value error is raised at once.  After the loop the required schema keys that matched
  nothing are missing keys, and then the data keys that matched nothing are wrong keys.
  The entries of an \<open>SDict\<close> stand in the order of \<open>dict_key_priority\<close>.
\<close>

function (sequential) schema_validate :: "schema \<Rightarrow> pyval \<Rightarrow> schema_error + unit"
  and validate_and :: "schema list \<Rightarrow> pyval \<Rightarrow> schema_error + unit"
  and validate_or :: "schema list \<Rightarrow> pyval \<Rightarrow> bool"
  and match_key :: "(schema \<times> schema) list \<Rightarrow> pyval \<Rightarrow> pyval \<Rightarrow> schema_error + schema option"
where
  "schema_validate (SType t) data =
     (if isinstance data t \<and> \<not> (isinstance data TBool \<and> t = TInt) then Inr ()
      else Inl (SchemaUnexpectedTypeError data t))"
| "schema_validate (SLit s) data =
     (if data = PStr s then Inr () else Inl (SchemaLiteralError s data))"
| "schema_validate (SCallable f) data =
     (if call_true f data then Inr () else Inl (SchemaCallableError data))"
| "schema_validate (SAnd ss) data = validate_and ss data"
| "schema_validate (SOr ss) data =
     (if validate_or ss data then Inr () else Inl (SchemaOrError data))"
| "schema_validate (SOptional k) data = schema_validate k data"
| "schema_validate (SDict es) data =
     (case data of
        PDict items \<Rightarrow>
          (let data_items = sort_key (\<lambda>item. isinstance (snd item) TDict) items
           in case first_error (map (\<lambda>item. match_key es (fst item) (snd item)) data_items) of
                Inl e \<Rightarrow> Inl e
              | Inr matched \<Rightarrow>
                  (let coverage = [k. Some k \<leftarrow> matched];
                       required = filter (\<lambda>k. \<not> is_optional k) (map fst es);
                       missing_keys = filter (\<lambda>k. k \<notin> set coverage) required;
                       wrong_keys = [fst item. (item, m) \<leftarrow> zip data_items matched, m = None]
                   in if missing_keys \<noteq> [] then Inl (SchemaMissingKeyError missing_keys)
                      else if wrong_keys \<noteq> [] then Inl (SchemaWrongKeyError wrong_keys)
                      else Inr ()))
      | _ \<Rightarrow> Inl (SchemaUnexpectedTypeError data TDict))"
| "validate_and [] data = Inr ()"
| "validate_and (s # ss) data =
     (case schema_validate s data of Inl e \<Rightarrow> Inl e | Inr u \<Rightarrow> validate_and ss data)"
| "validate_or [] data = False"
| "validate_or (s # ss) data =
     (case schema_validate s data of Inr u \<Rightarrow> True | Inl e \<Rightarrow> validate_or ss data)"
| "match_key [] key val = Inr None"
| "match_key ((skey, svalue) # more) key val =
     (case schema_validate skey key of
        Inl e \<Rightarrow> match_key more key val
      | Inr u \<Rightarrow>
          (case schema_validate svalue val of
             Inl x \<Rightarrow> Inl (SchemaKeyError key x)
           | Inr u' \<Rightarrow> Inr (Some skey)))"
  by pat_completeness auto

termination
  by (relation "measure (\<lambda>x. case x of
         Inl (Inl (s, d)) \<Rightarrow> size s
       | Inl (Inr (ss, d)) \<Rightarrow> size_list size ss
       | Inr (Inl (ss, d)) \<Rightarrow> size_list size ss
       | Inr (Inr (es, k, v)) \<Rightarrow> size_list (size_prod size size) es)") auto

subsection \<open>The schemas and checks of \<^verbatim>\<open>validation/schemas.py\<close>\<close>

definition BASE_CONFIG_SCHEMA :: schema where
  "BASE_CONFIG_SCHEMA =
     SDict
      [(SLit ''version'', SAnd [SType TInt, SCallable Lambda_version_positive]),
       (SOptional (SLit ''database''),
          SDict [(SLit ''host'', SAnd [SType TStr, SCallable Builtin_len]),
                 (SLit ''port'', SAnd [SType TInt, SCallable Lambda_port_in_range])]),
       (SOptional (SLit ''features''),
          SDict [(SType TStr, SOr [SType TBool, SType TStr, SType TInt, SType TFloat])]),
       (SOptional (SType TStr), SType TObject)]"

definition REQUIRED_FIELDS_SCHEMA :: schema where
  "REQUIRED_FIELDS_SCHEMA =
     SDict [(SLit ''version'', SType TInt), (SOptional (SType TStr), SType TObject)]"

definition validate_config_schema :: "pydict \<Rightarrow> schema_error + bool" where
  "validate_config_schema config_data =
     (case schema_validate REQUIRED_FIELDS_SCHEMA (PDict config_data) of
        Inl e \<Rightarrow> Inl (ValidationError e)
      | Inr u \<Rightarrow>
          if py_contains config_data ''database''
          then (case schema_validate BASE_CONFIG_SCHEMA (PDict config_data) of
                  Inl e \<Rightarrow> Inl (ValidationError e)
                | Inr u' \<Rightarrow> Inr True)
          else Inr True)"

text \<open>Python's truth value of an object, and the integer a bool or int stands for.\<close>

fun py_truthy :: "pyval \<Rightarrow> bool" where
  "py_truthy PNone = False"
| "py_truthy (PBool b) = b"
| "py_truthy (PInt n) = (n \<noteq> 0)"
| "py_truthy (PFloat w) = (w \<noteq> 0 \<and> w \<noteq> 0x8000000000000000)"
| "py_truthy (PStr s) = (s \<noteq> [])"
| "py_truthy (PList xs) = (xs \<noteq> [])"
| "py_truthy (PDict d) = (d \<noteq> [])"

fun py_int_value :: "pyval \<Rightarrow> int" where
  "py_int_value (PInt n) = n"
| "py_int_value (PBool b) = (if b then 1 else 0)"
| "py_int_value v = 0"

text \<open>An entry of the error list is a string: the text of a schema error (kept
  structured) or one of the two messages of the source.  \<^verbatim>\<open>db_config.get\<close> raises
  \<^verbatim>\<open>AttributeError\<close> when the \<^verbatim>\<open>database\<close> value is not a dict; nothing catches it
  before the request handler.\<close>

datatype validation_message = SchemaMessage schema_error | Message string

datatype py_exception = AttributeError

definition get_validation_errors :: "pydict \<Rightarrow> py_exception + validation_message list" where
  "get_validation_errors config_data =
     (let errors = (case validate_config_schema config_data of
                      Inl e \<Rightarrow> [SchemaMessage e]
                    | Inr ok \<Rightarrow> [])
      in if py_contains config_data ''database''
         then (case py_get config_data ''database'' of
                 PDict db_config \<Rightarrow>
                   (let host = py_get db_config ''host'';
                        errors1 =
                          (if \<not> py_truthy host \<or> \<not> isinstance host TStr
                           then errors @ [Message ''database.host must be a non-empty string'']
                           else errors);
                        port = py_get db_config ''port'';
                        errors2 =
                          (if \<not> isinstance port TInt
                              \<or> \<not> (1 \<le> py_int_value port \<and> py_int_value port \<le> 65535)
                           then errors1 @
                                [Message ''database.port must be an integer between 1 and 65535'']
                           else errors1)
                    in Inr errors2)
               | _ \<Rightarrow> Inl AttributeError)
         else Inr errors)"

definition validate :: "pydict \<Rightarrow> py_exception + (bool \<times> validation_message list)" where
  \<comment> \<open>\<^verbatim>\<open>ConfigValidator.validate\<close>\<close>
  "validate config_data =
     (case get_validation_errors config_data of
        Inl exn \<Rightarrow> Inl exn
      | Inr errors \<Rightarrow> Inr (length errors = 0, errors))"

section \<open>The versioned configuration store\<close>

text \<open>
  Modelled from the spec: the table \<^verbatim>\<open>configurations\<close> that the queries of
  \<^verbatim>\<open>db/connection.py\<close> run against is declared outside the source files.  Following
  sections 4.3, 6 and 9 of the specification it holds rows
  \<^verbatim>\<open>(id, service, version, payload, created_at)\<close>, \<^verbatim>\<open>version\<close> is an integer column
  (the code computes \<^verbatim>\<open>MAX(version) + 1\<close> and orders by it), \<^verbatim>\<open>id\<close> and
  \<^verbatim>\<open>created_at\<close> are assigned by the backend, and no uniqueness constraint on
  \<^verbatim>\<open>(service, version)\<close> is enforced.  The JSON encoding of the payload column is opaque:
  a row holds the document.
\<close>

type_synonym timestamp = nat

record config_row =
  row_id :: nat
  row_service :: string
  row_version :: int
  row_payload :: pydict
  row_created_at :: timestamp

record database =
  rows :: "config_row list"
  next_id :: nat
  clock :: timestamp

datatype db_error = DataError

text \<open>\<^verbatim>\<open>class ConfigurationModel\<close>, \<^verbatim>\<open>class ConfigHistoryItem\<close> and
  \<^verbatim>\<open>class ApiResponse\<close> of \<^verbatim>\<open>db/models.py\<close>.  The \<^verbatim>\<open>version\<close> attribute of a model is
  whatever Python value the caller passed.\<close>

record configuration_model =
  model_id :: "nat option"
  model_service :: string
  model_version :: pyval
  model_payload :: pydict
  model_created_at :: timestamp

record config_history_item =
  item_version :: int
  item_created_at :: timestamp

record 'a api_response =
  data :: "'a option"
  error :: "string option"
  status_code :: nat

text \<open>The three queries.  \<^verbatim>\<open>WHERE service = %s\<close> is a filter in table order,
  \<^verbatim>\<open>ORDER BY version DESC\<close> a stable sort on the negated version.\<close>

definition select_service :: "database \<Rightarrow> string \<Rightarrow> config_row list" where
  "select_service db service = filter (\<lambda>r. row_service r = service) (rows db)"

fun sql_max :: "int list \<Rightarrow> int option" where
  "sql_max [] = None"
| "sql_max (v # vs) = Some (case sql_max vs of None \<Rightarrow> v | Some m \<Rightarrow> max v m)"

definition select_max_version :: "database \<Rightarrow> string \<Rightarrow> int" where
  \<comment> \<open>\<^verbatim>\<open>SELECT COALESCE(MAX(version), 0) FROM configurations WHERE service = %s\<close>\<close>
  "select_max_version db service =
     (case sql_max (map row_version (select_service db service)) of
        None \<Rightarrow> 0 | Some m \<Rightarrow> m)"

definition order_by_version_desc :: "config_row list \<Rightarrow> config_row list" where
  "order_by_version_desc rs = sort_key (\<lambda>r. - row_version r) rs"

definition insert_configuration ::
  "database \<Rightarrow> string \<Rightarrow> pyval \<Rightarrow> pydict \<Rightarrow> db_error + (nat \<times> timestamp \<times> database)" where
  \<comment> \<open>\<^verbatim>\<open>INSERT INTO configurations (service, version, payload) VALUES (%s, %s, %s)
      RETURNING id, created_at\<close>: a version that is not an integer is refused.\<close>
  "insert_configuration db service version payload =
     (case version of
        PInt v \<Rightarrow>
          Inr (next_id db, clock db,
               db\<lparr>rows := rows db @
                     [\<lparr>row_id = next_id db, row_service = service, row_version = v,
                       row_payload = payload, row_created_at = clock db\<rparr>],
                  next_id := next_id db + 1\<rparr>)
      | _ \<Rightarrow> Inl DataError)"

definition save_configuration ::
  "database \<Rightarrow> string \<Rightarrow> pydict \<Rightarrow> db_error + (configuration_model \<times> database)" where
  "save_configuration db service payload =
     (let version0 = py_get payload ''version'';
          (version, payload') =
            (if version0 = PNone
             then (let version = PInt (select_max_version db service + 1)
                   in (version, py_setitem payload (PStr ''version'') version))
             else (version0, payload))
      in case insert_configuration db service version payload' of
           Inl e \<Rightarrow> Inl e
         | Inr (rid, created, db') \<Rightarrow>
             Inr (\<lparr>model_id = Some rid, model_service = service, model_version = version,
                   model_payload = payload', model_created_at = created\<rparr>, db'))"

definition model_of_row :: "config_row \<Rightarrow> configuration_model" where
  "model_of_row r =
     \<lparr>model_id = Some (row_id r), model_service = row_service r,
      model_version = PInt (row_version r), model_payload = row_payload r,
      model_created_at = row_created_at r\<rparr>"

definition get_configuration ::
  "database \<Rightarrow> string \<Rightarrow> int option \<Rightarrow> configuration_model option" where
  "get_configuration db service version =
     (let result =
            (case version of
               None \<Rightarrow> take 1 (order_by_version_desc (select_service db service))
             | Some v \<Rightarrow> filter (\<lambda>r. row_version r = v) (select_service db service))
      in case result of
           [] \<Rightarrow> None
         | row # _ \<Rightarrow> Some (model_of_row row))"

definition from_db_row :: "config_row \<Rightarrow> config_history_item" where
  "from_db_row r = \<lparr>item_version = row_version r, item_created_at = row_created_at r\<rparr>"

definition get_configuration_history :: "database \<Rightarrow> string \<Rightarrow> config_history_item list" where
  "get_configuration_history db service =
     map from_db_row (order_by_version_desc (select_service db service))"

text \<open>\<^verbatim>\<open>ConfigurationHandler.get_configuration_history\<close> of \<^verbatim>\<open>api/handlers.py\<close>.  The
  entries of the data are the items themselves (\<^verbatim>\<open>to_dict\<close> renders the timestamp with
  the datetime library).\<close>

definition handler_get_configuration_history ::
  "database \<Rightarrow> string \<Rightarrow> (config_history_item list) api_response" where
  "handler_get_configuration_history db service =
     (let history = get_configuration_history db service
      in if history = []
         then \<lparr>data = None,
               error = Some (''No configuration history found for service '' @ [CHR 0x27]
                             @ service @ [CHR 0x27]),
               status_code = 404\<rparr>
         else \<lparr>data = Some history, error = None, status_code = 200\<rparr>)"

section \<open>The template renderer\<close>

text \<open>
  \<^verbatim>\<open>templates/renderer.py\<close> serialises the document with \<^verbatim>\<open>json.dumps\<close>, renders the
  text with the template engine and reads the result back with \<^verbatim>\<open>json.loads\<close>.  The
  three library functions are modelled on the part of their input that the claims need;
  outside that part each gives the value \<open>Unmodelled\<close>, from which no theorem concludes
  anything.  Not modelled are: the text of a float, an escape \<^verbatim>\<open>\uXXXX\<close> above 255, and
  every construct of the template language other than plain text, the output of a
  variable \<^verbatim>\<open>{{ name }}\<close> and a comment without end.
\<close>

abbreviation (input) DQ :: char where "DQ \<equiv> CHR 0x22"
abbreviation (input) BS :: char where "BS \<equiv> CHR 0x5C"
abbreviation (input) NL :: char where "NL \<equiv> CHR 0x0A"
abbreviation (input) CR :: char where "CR \<equiv> CHR 0x0D"

subsection \<open>\<^verbatim>\<open>json.dumps(obj, ensure_ascii=False, indent=2)\<close>\<close>

datatype dumps_error = KeysTypeError | Dumps_unmodelled

definition digit_char :: "nat \<Rightarrow> char" where
  "digit_char n = char_of (48 + n)"

function digits_of :: "nat \<Rightarrow> string" where
  "digits_of n =
     (if n < 10 then [digit_char n] else digits_of (n div 10) @ [digit_char (n mod 10)])"
  by pat_completeness auto

termination
  by (relation "measure id") auto

declare digits_of.simps [simp del]

definition intstr :: "int \<Rightarrow> string" where
  "intstr i = (if i < 0 then CHR ''-'' # digits_of (nat (- i)) else digits_of (nat i))"

definition hex_digit :: "nat \<Rightarrow> char" where
  "hex_digit n = (if n < 10 then char_of (48 + n) else char_of (87 + n))"

text \<open>\<^verbatim>\<open>encode_basestring\<close>: the escapes of \<^verbatim>\<open>ESCAPE_DCT\<close>; every other character,
  also one above 127, is written as it is.\<close>

definition escape_char :: "char \<Rightarrow> string" where
  "escape_char c =
     (if c = BS then [BS, BS]
      else if c = DQ then [BS, DQ]
      else if c = CHR 0x08 then [BS, CHR ''b'']
      else if c = CHR 0x0C then [BS, CHR ''f'']
      else if c = NL then [BS, CHR ''n'']
      else if c = CR then [BS, CHR ''r'']
      else if c = CHR 0x09 then [BS, CHR ''t'']
      else if (of_char c :: nat) < 32
        then [BS, CHR ''u'', CHR ''0'', CHR ''0'',
              hex_digit (of_char c div 16), hex_digit (of_char c mod 16)]
      else [c])"

definition encode_basestring :: "string \<Rightarrow> string" where
  "encode_basestring s = DQ # concat (map escape_char s) @ [DQ]"

text \<open>The text of a dict key: a str is itself, a float, bool, \<^verbatim>\<open>None\<close> or int is
  converted, any other key raises \<^verbatim>\<open>TypeError\<close>.\<close>

fun dict_key_text :: "pyval \<Rightarrow> dumps_error + string" where
  "dict_key_text (PStr s) = Inr s"
| "dict_key_text (PFloat w) = Inl Dumps_unmodelled"
| "dict_key_text (PBool b) = Inr (if b then ''true'' else ''false'')"
| "dict_key_text PNone = Inr ''null''"
| "dict_key_text (PInt n) = Inr (intstr n)"
| "dict_key_text k = Inl KeysTypeError"

definition newline_indent :: "nat \<Rightarrow> string" where
  "newline_indent level = NL # replicate (2 * level) (CHR '' '')"

fun join_chunks :: "string \<Rightarrow> string list \<Rightarrow> string" where
  "join_chunks sep [] = []"
| "join_chunks sep [c] = c"
| "join_chunks sep (c # cs) = c @ sep @ join_chunks sep cs"

text \<open>\<^verbatim>\<open>_iterencode\<close>, \<^verbatim>\<open>_iterencode_list\<close> and \<^verbatim>\<open>_iterencode_dict\<close> at the current
  indent level; the two loops give the texts of the items, which the caller joins with
  \<^verbatim>\<open>","\<close> and the line break of the inner level.\<close>

fun iterencode :: "nat \<Rightarrow> pyval \<Rightarrow> dumps_error + string"
  and iterencode_list :: "nat \<Rightarrow> pyval list \<Rightarrow> dumps_error + string list"
  and iterencode_dict :: "nat \<Rightarrow> (pyval \<times> pyval) list \<Rightarrow> dumps_error + string list"
where
  "iterencode level PNone = Inr ''null''"
| "iterencode level (PBool b) = Inr (if b then ''true'' else ''false'')"
| "iterencode level (PInt n) = Inr (intstr n)"
| "iterencode level (PFloat w) = Inl Dumps_unmodelled"
| "iterencode level (PStr s) = Inr (encode_basestring s)"
| "iterencode level (PList xs) =
     (if xs = [] then Inr ''[]''
      else case iterencode_list (level + 1) xs of
             Inl e \<Rightarrow> Inl e
           | Inr chunks \<Rightarrow>
               Inr (''['' @ newline_indent (level + 1)
                    @ join_chunks (CHR '','' # newline_indent (level + 1)) chunks
                    @ newline_indent level @ '']''))"
| "iterencode level (PDict d) =
     (if d = [] then Inr ''{}''
      else case iterencode_dict (level + 1) d of
             Inl e \<Rightarrow> Inl e
           | Inr chunks \<Rightarrow>
               Inr (''{'' @ newline_indent (level + 1)
                    @ join_chunks (CHR '','' # newline_indent (level + 1)) chunks
                    @ newline_indent level @ ''}''))"
| "iterencode_list level [] = Inr []"
| "iterencode_list level (x # xs) =
     (case iterencode level x of
        Inl e \<Rightarrow> Inl e
      | Inr c \<Rightarrow>
          (case iterencode_list level xs of Inl e \<Rightarrow> Inl e | Inr cs \<Rightarrow> Inr (c # cs)))"
| "iterencode_dict level [] = Inr []"
| "iterencode_dict level ((k, v) # d) =
     (case dict_key_text k of
        Inl e \<Rightarrow> Inl e
      | Inr key \<Rightarrow>
          (case iterencode level v of
             Inl e \<Rightarrow> Inl e
           | Inr c \<Rightarrow>
               (case iterencode_dict level d of
                  Inl e \<Rightarrow> Inl e
                | Inr cs \<Rightarrow> Inr ((encode_basestring key @ '': '' @ c) # cs))))"

definition json_dumps :: "pyval \<Rightarrow> dumps_error + string" where
  "json_dumps obj = iterencode 0 obj"

subsection \<open>The template engine\<close>

text \<open>
  The environment of \<^verbatim>\<open>TemplateRenderer\<close> has the default delimiters.  The lexer first
  turns every line break into \<^verbatim>\<open>\n\<close>; in its root state it looks for the first of
  \<^verbatim>\<open>{{\<close>, \<^verbatim>\<open>{%\<close> and \<^verbatim>\<open>{#\<close> and passes the text before it through; text with none of
  them is passed through whole (\<^verbatim>\<open>keep_trailing_newline\<close> is set).  A comment whose end
  \<^verbatim>\<open>#}\<close> is missing is a \<^verbatim>\<open>TemplateSyntaxError\<close>.  A variable \<^verbatim>\<open>{{ name }}\<close> gives the
  value of the name in the context, or the empty text when the name is undefined.  The
  context maps names to strings, as the query parameters of a request do.
\<close>

datatype template_error = TemplateSyntaxError | Template_unmodelled

type_synonym template_context = "(string \<times> string) list"

function normalize_newlines :: "string \<Rightarrow> string" where
  "normalize_newlines [] = []"
| "normalize_newlines [c] = (if c = CR then [NL] else [c])"
| "normalize_newlines (c # d # cs) =
     (if c = CR \<and> d = NL then NL # normalize_newlines cs
      else if c = CR then NL # normalize_newlines (d # cs)
      else c # normalize_newlines (d # cs))"
  by pat_completeness auto

termination
  by (relation "measure length") auto

text \<open>The text before the first delimiter, the second character of the delimiter and
  the text after it.\<close>

fun find_tag :: "string \<Rightarrow> (string \<times> char \<times> string) option" where
  "find_tag [] = None"
| "find_tag [c] = None"
| "find_tag (c # d # cs) =
     (if c = CHR ''{'' \<and> (d = CHR ''{'' \<or> d = CHR ''%'' \<or> d = CHR ''#'')
      then Some ([], d, cs)
      else (case find_tag (d # cs) of
              None \<Rightarrow> None
            | Some (before, kind, rest) \<Rightarrow> Some (c # before, kind, rest)))"

fun starts_with :: "string \<Rightarrow> string \<Rightarrow> bool" where
  "starts_with [] s = True"
| "starts_with (p # ps) [] = False"
| "starts_with (p # ps) (c # cs) = (p = c \<and> starts_with ps cs)"

definition is_name_start :: "char \<Rightarrow> bool" where
  "is_name_start c =
     ((65 \<le> (of_char c :: nat) \<and> (of_char c :: nat) \<le> 90)
      \<or> (97 \<le> (of_char c :: nat) \<and> (of_char c :: nat) \<le> 122) \<or> c = CHR ''_'')"

definition is_name_char :: "char \<Rightarrow> bool" where
  "is_name_char c =
     (is_name_start c \<or> (48 \<le> (of_char c :: nat) \<and> (of_char c :: nat) \<le> 57))"

text \<open>The names the model leaves alone: the constants and operators of the expression
  language, \<^verbatim>\<open>self\<close> and the default globals of an environment.\<close>

definition special_names :: "string list" where
  "special_names =
     [''true'', ''false'', ''none'', ''True'', ''False'', ''None'', ''not'', ''and'', ''or'',
      ''if'', ''else'', ''in'', ''is'', ''self'', ''range'', ''dict'', ''lipsum'', ''cycler'',
      ''joiner'', ''namespace'']"

text \<open>The inside of \<^verbatim>\<open>{{ ... }}\<close> after the opening delimiter: blanks, one name,
  blanks and the closing delimiter; the result is the name and the text after it.\<close>

definition scan_variable :: "string \<Rightarrow> (string \<times> string) option" where
  "scan_variable s =
     (let s1 = dropWhile (\<lambda>c. c = CHR '' '') s;
          name = takeWhile is_name_char s1;
          s2 = dropWhile (\<lambda>c. c = CHR '' '') (dropWhile is_name_char s1)
      in if name = [] \<or> \<not> is_name_start (hd name) \<or> name \<in> set special_names then None
         else if starts_with ''}}'' s2 then Some (name, drop 2 s2)
         else None)"

text \<open>Python's \<^verbatim>\<open>sub in s\<close> on strings.\<close>

fun contains :: "string \<Rightarrow> string \<Rightarrow> bool" where
  "contains sub [] = (sub = [])"
| "contains sub (c # cs) = (starts_with sub (c # cs) \<or> contains sub cs)"

lemma find_tag_shorter:
  "find_tag s = Some (before, kind, rest) \<Longrightarrow> length rest < length s"
  by (induction s arbitrary: before rule: find_tag.induct)
     (auto split: if_splits option.splits)

lemma scan_variable_shorter:
  assumes "scan_variable s = Some (name, rest)"
  shows "length rest \<le> length s"
proof -
  let ?s1 = "dropWhile (\<lambda>c. c = CHR '' '') s"
  let ?s2 = "dropWhile (\<lambda>c. c = CHR '' '') (dropWhile is_name_char ?s1)"
  from assms have "rest = drop 2 ?s2"
    by (simp add: scan_variable_def Let_def split: if_splits)
  then have "length rest \<le> length ?s2" by simp
  also have "\<dots> \<le> length (dropWhile is_name_char ?s1)" by (rule length_dropWhile_le)
  also have "\<dots> \<le> length ?s1" by (rule length_dropWhile_le)
  also have "\<dots> \<le> length s" by (rule length_dropWhile_le)
  finally show ?thesis .
qed

function render_tokens :: "template_context \<Rightarrow> string \<Rightarrow> template_error + string" where
  "render_tokens context s =
     (case find_tag s of
        None \<Rightarrow> Inr s
      | Some (before, kind, rest) \<Rightarrow>
          if kind = CHR ''{'' then
            (case scan_variable rest of
               None \<Rightarrow> Inl Template_unmodelled
             | Some (name, rest') \<Rightarrow>
                 (case render_tokens context rest' of
                    Inl e \<Rightarrow> Inl e
                  | Inr out \<Rightarrow>
                      Inr (before
                           @ (case map_of context name of None \<Rightarrow> [] | Some v \<Rightarrow> v)
                           @ out)))
          else if kind = CHR ''#'' then
            (if contains ''#}'' rest then Inl Template_unmodelled else Inl TemplateSyntaxError)
          else Inl Template_unmodelled)"
  by pat_completeness auto

termination
proof (relation "measure (\<lambda>(context, s). length s)", goal_cases)
  case 1
  show ?case by simp
next
  case (2 ctx s x before y kind rest z name rest')
  then show ?case
    using find_tag_shorter [of s before kind rest] scan_variable_shorter [of rest name rest']
    by simp
qed

declare render_tokens.simps [simp del]

definition template_render :: "string \<Rightarrow> template_context \<Rightarrow> template_error + string" where
  \<comment> \<open>\<^verbatim>\<open>env.from_string(source).render(**context)\<close>\<close>
  "template_render source context = render_tokens context (normalize_newlines source)"

subsection \<open>\<^verbatim>\<open>json.loads\<close>\<close>

datatype loads_error = JSONDecodeError | Loads_unmodelled

definition json_ws :: "char \<Rightarrow> bool" where
  "json_ws c = (c = CHR '' '' \<or> c = CHR 0x09 \<or> c = NL \<or> c = CR)"

definition skip_ws :: "string \<Rightarrow> string" where
  "skip_ws s = dropWhile json_ws s"

definition is_digit :: "char \<Rightarrow> bool" where
  "is_digit c = (48 \<le> (of_char c :: nat) \<and> (of_char c :: nat) \<le> 57)"

definition int_of_digits :: "string \<Rightarrow> int" where
  "int_of_digits ds = foldl (\<lambda>a c. 10 * a + int (of_char c - 48)) 0 ds"

definition hex_value :: "char \<Rightarrow> nat option" where
  "hex_value c =
     (let n = (of_char c :: nat)
      in if 48 \<le> n \<and> n \<le> 57 then Some (n - 48)
         else if 97 \<le> n \<and> n \<le> 102 then Some (n - 87)
         else if 65 \<le> n \<and> n \<le> 70 then Some (n - 55)
         else None)"

definition hex4 :: "char \<Rightarrow> char \<Rightarrow> char \<Rightarrow> char \<Rightarrow> nat option" where
  "hex4 h1 h2 h3 h4 =
     (case hex_value h1 of None \<Rightarrow> None | Some a \<Rightarrow>
      (case hex_value h2 of None \<Rightarrow> None | Some b \<Rightarrow>
       (case hex_value h3 of None \<Rightarrow> None | Some c \<Rightarrow>
        (case hex_value h4 of None \<Rightarrow> None | Some d \<Rightarrow>
           Some (4096 * a + 256 * b + 16 * c + d)))))"

definition unescape :: "char \<Rightarrow> char option" where
  \<comment> \<open>\<^verbatim>\<open>BACKSLASH\<close> of the decoder\<close>
  "unescape e =
     (if e = DQ then Some DQ
      else if e = BS then Some BS
      else if e = CHR ''/'' then Some (CHR ''/'')
      else if e = CHR ''b'' then Some (CHR 0x08)
      else if e = CHR ''f'' then Some (CHR 0x0C)
      else if e = CHR ''n'' then Some NL
      else if e = CHR ''r'' then Some CR
      else if e = CHR ''t'' then Some (CHR 0x09)
      else None)"

text \<open>\<^verbatim>\<open>scanstring\<close> after the opening quote (strict: a control character inside a
  string is an error): the string and the text after the closing quote.\<close>

fun scanstring :: "string \<Rightarrow> loads_error + (string \<times> string)" where
  "scanstring [] = Inl JSONDecodeError"
| "scanstring (c # cs) =
     (if c = DQ then Inr ([], cs)
      else if c = BS then
        (case cs of
           [] \<Rightarrow> Inl JSONDecodeError
         | e # cs' \<Rightarrow>
             if e = CHR ''u'' then
               (case cs' of
                  h1 # h2 # h3 # h4 # cs'' \<Rightarrow>
                    (case hex4 h1 h2 h3 h4 of
                       None \<Rightarrow> Inl Loads_unmodelled
                     | Some n \<Rightarrow>
                         if n < 256
                         then (case scanstring cs'' of
                                 Inl x \<Rightarrow> Inl x
                               | Inr (s, r) \<Rightarrow> Inr (char_of n # s, r))
                         else Inl Loads_unmodelled)
                | _ \<Rightarrow> Inl JSONDecodeError)
             else
               (case unescape e of
                  None \<Rightarrow> Inl JSONDecodeError
                | Some ch \<Rightarrow>
                    (case scanstring cs' of
                       Inl x \<Rightarrow> Inl x
                     | Inr (s, r) \<Rightarrow> Inr (ch # s, r))))
      else if (of_char c :: nat) < 32 then Inl JSONDecodeError
      else (case scanstring cs of
              Inl x \<Rightarrow> Inl x
            | Inr (s, r) \<Rightarrow> Inr (c # s, r)))"

text \<open>\<^verbatim>\<open>NUMBER_RE\<close> at the head of the text: \<open>None\<close> when it does not match, otherwise
  the integer and the text after it; a number with a fraction or an exponent is a
  float.\<close>

definition is_float_tail :: "string \<Rightarrow> bool" where
  "is_float_tail s =
     (case s of
        c # d # r \<Rightarrow>
          (c = CHR ''.'' \<and> is_digit d)
          \<or> ((c = CHR ''e'' \<or> c = CHR ''E'')
              \<and> (is_digit d
                  \<or> ((d = CHR ''-'' \<or> d = CHR ''+'') \<and> (case r of [] \<Rightarrow> False | x # r' \<Rightarrow> is_digit x))))
      | _ \<Rightarrow> False)"

definition scan_number :: "string \<Rightarrow> (loads_error + (pyval \<times> string)) option" where
  "scan_number s =
     (let negative = (case s of [] \<Rightarrow> False | c # r \<Rightarrow> c = CHR ''-'');
          s1 = (if negative then tl s else s)
      in case s1 of
           [] \<Rightarrow> None
         | d # r \<Rightarrow>
             if \<not> is_digit d then None
             else
               (let integer = (if d = CHR ''0'' then [d] else d # takeWhile is_digit r);
                    rest = (if d = CHR ''0'' then r else dropWhile is_digit r)
                in if is_float_tail rest then Some (Inl Loads_unmodelled)
                   else Some (Inr (PInt (if negative then - int_of_digits integer
                                         else int_of_digits integer), rest))))"

text \<open>\<^verbatim>\<open>dict(pairs)\<close>: a repeated key keeps its first place and its last value.\<close>

definition dict_of_pairs :: "(pyval \<times> pyval) list \<Rightarrow> pydict" where
  "dict_of_pairs pairs = foldl (\<lambda>d (k, v). py_setitem d k v) [] pairs"

text \<open>
  \<^verbatim>\<open>scan_once\<close>, the loop of \<^verbatim>\<open>JSONArray\<close> (at the start of an element) and the loop of
  \<^verbatim>\<open>JSONObject\<close> (at the opening quote of a key).  The first argument bounds the depth of
  the recursion; \<open>json_loads\<close> starts with a bound that the text cannot exhaust.
\<close>

fun scan_once :: "nat \<Rightarrow> string \<Rightarrow> loads_error + (pyval \<times> string)"
  and json_array :: "nat \<Rightarrow> string \<Rightarrow> loads_error + (pyval list \<times> string)"
  and json_object :: "nat \<Rightarrow> string \<Rightarrow> loads_error + ((pyval \<times> pyval) list \<times> string)"
where
  "scan_once 0 s = Inl Loads_unmodelled"
| "scan_once (Suc n) s =
     (case s of
        [] \<Rightarrow> Inl JSONDecodeError
      | c # cs \<Rightarrow>
          if c = DQ then
            (case scanstring cs of Inl e \<Rightarrow> Inl e | Inr (str, r) \<Rightarrow> Inr (PStr str, r))
          else if c = CHR ''{'' then
            (case skip_ws cs of
               [] \<Rightarrow> Inl JSONDecodeError
             | c' # r \<Rightarrow>
                 if c' = CHR ''}'' then Inr (PDict [], r)
                 else if c' \<noteq> DQ then Inl JSONDecodeError
                 else (case json_object n (c' # r) of
                         Inl e \<Rightarrow> Inl e
                       | Inr (pairs, r') \<Rightarrow> Inr (PDict (dict_of_pairs pairs), r')))
          else if c = CHR ''['' then
            (case skip_ws cs of
               [] \<Rightarrow> Inl JSONDecodeError
             | c' # r \<Rightarrow>
                 if c' = CHR '']'' then Inr (PList [], r)
                 else (case json_array n (c' # r) of
                         Inl e \<Rightarrow> Inl e
                       | Inr (values, r') \<Rightarrow> Inr (PList values, r')))
          else if starts_with ''null'' s then Inr (PNone, drop 4 s)
          else if starts_with ''true'' s then Inr (PBool True, drop 4 s)
          else if starts_with ''false'' s then Inr (PBool False, drop 5 s)
          else (case scan_number s of
                  Some result \<Rightarrow> result
                | None \<Rightarrow>
                    if starts_with ''NaN'' s \<or> starts_with ''Infinity'' s
                       \<or> starts_with ''-Infinity'' s
                    then Inl Loads_unmodelled
                    else Inl JSONDecodeError))"
| "json_array 0 s = Inl Loads_unmodelled"
| "json_array (Suc n) s =
     (case scan_once n s of
        Inl e \<Rightarrow> Inl e
      | Inr (v, r) \<Rightarrow>
          (case skip_ws r of
             [] \<Rightarrow> Inl JSONDecodeError
           | c # r' \<Rightarrow>
               if c = CHR '']'' then Inr ([v], r')
               else if c = CHR '','' then
                 (case json_array n (skip_ws r') of
                    Inl e \<Rightarrow> Inl e
                  | Inr (vs, r'') \<Rightarrow> Inr (v # vs, r''))
               else Inl JSONDecodeError))"
| "json_object 0 s = Inl Loads_unmodelled"
| "json_object (Suc n) s =
     (case scanstring (tl s) of
        Inl e \<Rightarrow> Inl e
      | Inr (key, r) \<Rightarrow>
          (case skip_ws r of
             [] \<Rightarrow> Inl JSONDecodeError
           | c # r1 \<Rightarrow>
               if c \<noteq> CHR '':'' then Inl JSONDecodeError
               else
                 (case scan_once n (skip_ws r1) of
                    Inl e \<Rightarrow> Inl e
                  | Inr (v, r2) \<Rightarrow>
                      (case skip_ws r2 of
                         [] \<Rightarrow> Inl JSONDecodeError
                       | c' # r3 \<Rightarrow>
                           if c' = CHR ''}'' then Inr ([(PStr key, v)], r3)
                           else if c' = CHR '','' then
                             (case skip_ws r3 of
                                [] \<Rightarrow> Inl JSONDecodeError
                              | q # r4 \<Rightarrow>
                                  if q \<noteq> DQ then Inl JSONDecodeError
                                  else (case json_object n (q # r4) of
                                          Inl e \<Rightarrow> Inl e
                                        | Inr (pairs, r5) \<Rightarrow> Inr ((PStr key, v) # pairs, r5)))
                           else Inl JSONDecodeError))))"

definition json_loads :: "string \<Rightarrow> loads_error + pyval" where
  "json_loads s =
     (case scan_once (2 * length s + 1) (skip_ws s) of
        Inl e \<Rightarrow> Inl e
      | Inr (obj, rest) \<Rightarrow> if skip_ws rest = [] then Inr obj else Inl JSONDecodeError)"

subsection \<open>\<^verbatim>\<open>TemplateRenderer\<close> and \<^verbatim>\<open>ConfigTemplateProcessor\<close>\<close>

text \<open>The three \<^verbatim>\<open>ValueError\<close>s that \<^verbatim>\<open>render_config_template\<close> raises, by their
  messages.\<close>

datatype render_error =
    Template_rendering_failed
  | Invalid_JSON_after_template_rendering
  | Template_rendering_error
  | Unmodelled

definition render_config_template :: "pydict \<Rightarrow> template_context \<Rightarrow> render_error + pyval" where
  "render_config_template config_data context =
     (case json_dumps (PDict config_data) of
        Inl KeysTypeError \<Rightarrow> Inl Template_rendering_error
      | Inl Dumps_unmodelled \<Rightarrow> Inl Unmodelled
      | Inr config_json \<Rightarrow>
          (case template_render config_json context of
             Inl TemplateSyntaxError \<Rightarrow> Inl Template_rendering_failed
           | Inl Template_unmodelled \<Rightarrow> Inl Unmodelled
           | Inr rendered_json \<Rightarrow>
               (case json_loads rendered_json of
                  Inl JSONDecodeError \<Rightarrow> Inl Invalid_JSON_after_template_rendering
                | Inl Loads_unmodelled \<Rightarrow> Inl Unmodelled
                | Inr rendered_config \<Rightarrow> Inr rendered_config)))"

text \<open>\<^verbatim>\<open>{**default_context, **template_params}\<close>: the keys of the first dict keep their
  places, the values of the second win.\<close>

definition dict_merge :: "('k \<times> 'v) list \<Rightarrow> ('k \<times> 'v) list \<Rightarrow> ('k \<times> 'v) list" where
  "dict_merge a b = foldl (\<lambda>d (k, v). py_setitem d k v) a b"

definition get_default :: "template_context \<Rightarrow> string \<Rightarrow> string \<Rightarrow> string" where
  \<comment> \<open>\<^verbatim>\<open>template_params.get(key, default)\<close>\<close>
  "get_default params key dflt = (case map_of params key of None \<Rightarrow> dflt | Some v \<Rightarrow> v)"

definition template_context :: "template_context \<Rightarrow> template_context" where
  "template_context template_params =
     (let default_context =
            [(''user'', get_default template_params ''user'' ''anonymous''),
             (''env'', get_default template_params ''env'' ''development''),
             (''timestamp'', get_default template_params ''timestamp'' '''')]
      in dict_merge default_context template_params)"

definition process_template_request ::
  "pydict \<Rightarrow> template_context \<Rightarrow> render_error + pyval" where
  "process_template_request config_data template_params =
     render_config_template config_data (template_context template_params)"

section \<open>Example inputs\<close>

definition empty_db :: database where
  "empty_db = \<lparr>rows = [], next_id = 1, clock = 0\<rparr>"

definition null_version_doc :: pydict where
  "null_version_doc = [(PStr ''version'', PNone)]"

definition scenario_a_doc :: pydict where
  "scenario_a_doc =
     [(PStr ''version'', PInt 1),
      (PStr ''database'', PDict [(PStr ''host'', PStr ''localhost''), (PStr ''port'', PInt 5432)])]"

definition scenario_a_row :: "nat \<Rightarrow> config_row" where
  "scenario_a_row i =
     \<lparr>row_id = i, row_service = ''auth'', row_version = 1, row_payload = scenario_a_doc,
      row_created_at = 0\<rparr>"

definition duplicate_db :: database where
  "duplicate_db = \<lparr>rows = [scenario_a_row 1, scenario_a_row 2], next_id = 3, clock = 0\<rparr>"

definition sample_db :: database where
  "sample_db =
     \<lparr>rows = [\<lparr>row_id = 1, row_service = ''auth'', row_version = 1,
                row_payload = scenario_a_doc, row_created_at = 10\<rparr>,
              \<lparr>row_id = 2, row_service = ''billing'', row_version = 5,
                row_payload = [(PStr ''version'', PInt 5)], row_created_at = 11\<rparr>,
              \<lparr>row_id = 3, row_service = ''auth'', row_version = 2,
                row_payload = [(PStr ''version'', PInt 2)], row_created_at = 12\<rparr>],
      next_id = 4, clock = 13\<rparr>"

definition scenario_b_doc :: pydict where
  "scenario_b_doc =
     [(PStr ''database'', PDict [(PStr ''host'', PStr ''localhost''), (PStr ''port'', PInt 99999)])]"

definition unversioned_doc :: pydict where
  "unversioned_doc = [(PStr ''name'', PStr ''app'')]"



text \<open>Notions used in the proofs: the value schema of the \<^verbatim>\<open>features\<close> entry of
  \<open>BASE_CONFIG_SCHEMA\<close>, a value that is none of bool, str, int and float, and the schema
  key of \<open>REQUIRED_FIELDS_SCHEMA\<close> that a data key other than \<^verbatim>\<open>version\<close> matches.\<close>

definition required_match :: "pyval \<times> pyval \<Rightarrow> schema option" where
  "required_match item = (case fst item of PStr s \<Rightarrow> Some (SOptional (SType TStr)) | _ \<Rightarrow> None)"



definition scenario_d_doc :: pydict where
  "scenario_d_doc = [(PStr ''welcome_message'', PStr ''Hello {{ user }}!'')]"









section \<open>Properties of the store\<close>

lemma set_order_by_version_desc [simp]: "set (order_by_version_desc rs) = set rs"
  by (simp add: order_by_version_desc_def)

lemma sorted_order_by_version_desc:
  "sorted_wrt (\<lambda>a b. row_version b \<le> row_version a) (order_by_version_desc rs)"
proof -
  have "sorted (map (\<lambda>r. - row_version r) (order_by_version_desc rs))"
    by (simp add: order_by_version_desc_def)
  then show ?thesis by (simp add: sorted_wrt_map)
qed

lemma distinct_versions_order_by:
  "distinct (map row_version (order_by_version_desc rs)) = distinct (map row_version rs)"
  by (simp add: distinct_map order_by_version_desc_def)

lemma order_by_version_desc_empty [simp]: "order_by_version_desc [] = []"
  by (simp add: order_by_version_desc_def)

lemma order_by_version_desc_Nil: "order_by_version_desc rs = [] \<longleftrightarrow> rs = []"
  by (metis set_order_by_version_desc set_empty)

lemma order_by_version_desc_head:
  assumes "order_by_version_desc rs = r # rest"
  shows "r \<in> set rs \<and> (\<forall>r' \<in> set rs. row_version r' \<le> row_version r)"
proof -
  have s: "set rs = insert r (set rest)"
    using assms set_order_by_version_desc [of rs] by simp
  have "sorted_wrt (\<lambda>a b. row_version b \<le> row_version a) (r # rest)"
    using sorted_order_by_version_desc [of rs] assms by simp
  then have "\<forall>r' \<in> set rest. row_version r' \<le> row_version r" by simp
  with s show ?thesis by auto
qed

lemma set_select_service:
  "set (select_service db service) = {r \<in> set (rows db). row_service r = service}"
  by (simp add: select_service_def)

text \<open>
  C6.  \<^verbatim>\<open>get(service, version)\<close>: without a version the result is a stored record of the
  service whose version is the maximum for that service (and nothing exactly when the
  service has no record); with a version it is a stored record with exactly that service
  and version, or nothing when there is none.  Nothing is the value \<open>None\<close>, not an error.
\<close>
theorem get_configuration_contract:
  "(case get_configuration db service None of
      None \<Rightarrow> \<not> (\<exists>r \<in> set (rows db). row_service r = service)
    | Some m \<Rightarrow>
        \<exists>r \<in> set (rows db). row_service r = service \<and> m = model_of_row r \<and>
          (\<forall>r' \<in> set (rows db). row_service r' = service \<longrightarrow> row_version r' \<le> row_version r))
   \<and> (case get_configuration db service (Some v) of
      None \<Rightarrow> \<not> (\<exists>r \<in> set (rows db). row_service r = service \<and> row_version r = v)
    | Some m \<Rightarrow>
        \<exists>r \<in> set (rows db). row_service r = service \<and> row_version r = v \<and> m = model_of_row r)"
proof
  show "case get_configuration db service None of
      None \<Rightarrow> \<not> (\<exists>r \<in> set (rows db). row_service r = service)
    | Some m \<Rightarrow>
        \<exists>r \<in> set (rows db). row_service r = service \<and> m = model_of_row r \<and>
          (\<forall>r' \<in> set (rows db). row_service r' = service \<longrightarrow> row_version r' \<le> row_version r)"
  proof (cases "order_by_version_desc (select_service db service)")
    case Nil
    then have "select_service db service = []" by (simp add: order_by_version_desc_Nil)
    then have "\<not> (\<exists>r \<in> set (rows db). row_service r = service)"
      by (auto simp: select_service_def filter_empty_conv)
    moreover have "get_configuration db service None = None"
      using Nil by (simp add: get_configuration_def)
    ultimately show ?thesis by simp
  next
    case (Cons r rest)
    from order_by_version_desc_head [OF Cons]
    have "r \<in> set (rows db)" "row_service r = service"
      "\<forall>r' \<in> set (rows db). row_service r' = service \<longrightarrow> row_version r' \<le> row_version r"
      by (auto simp: set_select_service)
    moreover have "get_configuration db service None = Some (model_of_row r)"
      using Cons by (simp add: get_configuration_def)
    ultimately show ?thesis by auto
  qed
next
  show "case get_configuration db service (Some v) of
      None \<Rightarrow> \<not> (\<exists>r \<in> set (rows db). row_service r = service \<and> row_version r = v)
    | Some m \<Rightarrow>
        \<exists>r \<in> set (rows db). row_service r = service \<and> row_version r = v \<and> m = model_of_row r"
  proof (cases "filter (\<lambda>r. row_version r = v) (select_service db service)")
    case Nil
    then have "\<not> (\<exists>r \<in> set (rows db). row_service r = service \<and> row_version r = v)"
      by (auto simp: filter_empty_conv set_select_service)
    moreover have "get_configuration db service (Some v) = None"
      using Nil by (simp add: get_configuration_def)
    ultimately show ?thesis by simp
  next
    case (Cons r rest)
    then have "r \<in> set (filter (\<lambda>r. row_version r = v) (select_service db service))"
      by simp
    then have "r \<in> set (rows db)" "row_service r = service" "row_version r = v"
      by (auto simp: set_select_service)
    moreover have "get_configuration db service (Some v) = Some (model_of_row r)"
      using Cons by (simp add: get_configuration_def)
    ultimately show ?thesis by auto
  qed
qed

text \<open>
  C7, as amended.  \<^verbatim>\<open>history(service)\<close> lists the \<open>(version, created_at)\<close> pairs of exactly
  the stored records of the service, in descending (non-increasing) order of version; the
  order is strictly descending whenever the stored versions of the service are pairwise
  distinct; for a service with no stored record the list is empty.
\<close>
theorem history_descending:
  "sorted_wrt (\<lambda>a b. item_version b \<le> item_version a) (get_configuration_history db service)
   \<and> (distinct (map row_version (select_service db service)) \<longrightarrow>
        sorted_wrt (\<lambda>a b. item_version b < item_version a) (get_configuration_history db service))
   \<and> set (get_configuration_history db service) =
       from_db_row ` {r \<in> set (rows db). row_service r = service}
   \<and> length (get_configuration_history db service) = length (select_service db service)
   \<and> (select_service db service = [] \<longrightarrow> get_configuration_history db service = [])"
proof -
  let ?rs = "select_service db service"
  let ?h = "get_configuration_history db service"
  have v: "\<And>r. item_version (from_db_row r) = row_version r"
    by (simp add: from_db_row_def)
  have desc: "sorted_wrt (\<lambda>a b. item_version b \<le> item_version a) ?h"
    using sorted_order_by_version_desc [of ?rs]
    by (simp add: get_configuration_history_def sorted_wrt_map v)
  have strict: "sorted_wrt (\<lambda>a b. item_version b < item_version a) ?h"
    if d: "distinct (map row_version ?rs)"
  proof -
    have "distinct (map (\<lambda>r. - row_version r) (order_by_version_desc ?rs))"
      using d by (simp add: distinct_map order_by_version_desc_def inj_on_def)
    moreover have "sorted (map (\<lambda>r. - row_version r) (order_by_version_desc ?rs))"
      by (simp add: order_by_version_desc_def)
    ultimately have "sorted_wrt (<) (map (\<lambda>r. - row_version r) (order_by_version_desc ?rs))"
      by (simp add: strict_sorted_iff)
    then show ?thesis
      by (simp add: get_configuration_history_def sorted_wrt_map v)
  qed
  have s: "set ?h = from_db_row ` {r \<in> set (rows db). row_service r = service}"
    by (simp add: get_configuration_history_def set_select_service)
  have l: "length ?h = length ?rs"
    by (simp add: get_configuration_history_def order_by_version_desc_def)
  have e: "?h = []" if "?rs = []"
    using that by (simp add: get_configuration_history_def)
  from desc strict s l e show ?thesis by blast
qed

text \<open>
  C10.  At the handler, a history request for a service with no stored record is answered
  with status 404 and the message \<^verbatim>\<open>No configuration history found for service '...'\<close>
  and carries no data; the data of a response is never the empty list.
\<close>
theorem handler_history_not_found:
  "(select_service db service = [] \<longrightarrow>
      handler_get_configuration_history db service =
        \<lparr>data = None,
         error = Some (''No configuration history found for service '' @ [CHR 0x27]
                       @ service @ [CHR 0x27]),
         status_code = 404\<rparr>)
   \<and> data (handler_get_configuration_history db service) \<noteq> Some []
   \<and> (get_configuration_history db service = [] \<longleftrightarrow> select_service db service = [])"
  by (auto simp: handler_get_configuration_history_def get_configuration_history_def Let_def
        order_by_version_desc_Nil)


lemma map_of_py_setitem: "map_of (py_setitem d k v) k = Some v"
  by (induction d) auto

lemma py_get_py_setitem: "py_get (py_setitem d (PStr k) v) k = v"
  by (simp add: py_get_def map_of_py_setitem)

lemma sql_max_None: "sql_max vs = None \<longleftrightarrow> vs = []"
  by (cases vs) simp_all

lemma sql_max_Max: "vs \<noteq> [] \<Longrightarrow> sql_max vs = Some (Max (set vs))"
proof (induction vs)
  case Nil
  then show ?case by simp
next
  case (Cons v vs)
  show ?case
  proof (cases "vs = []")
    case True
    then show ?thesis by simp
  next
    case False
    with Cons.IH have "sql_max vs = Some (Max (set vs))" by simp
    with False show ?thesis by simp
  qed
qed

lemma select_max_version_eq:
  "select_max_version db service =
     (if select_service db service = [] then 0
      else Max (row_version ` set (select_service db service)))"
proof (cases "select_service db service = []")
  case True
  then show ?thesis by (simp add: select_max_version_def)
next
  case False
  then have "map row_version (select_service db service) \<noteq> []" by simp
  from sql_max_Max [OF this] False show ?thesis
    by (simp add: select_max_version_def)
qed

text \<open>
  C3, as amended.  When the document has no \<^verbatim>\<open>version\<close> field, or has one that is null,
  \<^verbatim>\<open>save\<close> reads the maximum version of the service (0 when it has no rows), stores the
  document with \<^verbatim>\<open>version = max + 1\<close> written into the payload and returns that record.
  When the document carries an integer version, \<^verbatim>\<open>save\<close> stores it as it is, whatever rows
  exist already.  Whenever \<^verbatim>\<open>save\<close> returns a record, its version is the payload's version,
  and a non-null version of the caller is kept unchanged together with the payload.
\<close>
theorem save_configuration_version:
  "(\<not> py_contains payload ''version'' \<or> py_get payload ''version'' = PNone \<longrightarrow>
      save_configuration db service payload =
        Inr (\<lparr>model_id = Some (next_id db), model_service = service,
              model_version = PInt (select_max_version db service + 1),
              model_payload =
                py_setitem payload (PStr ''version'') (PInt (select_max_version db service + 1)),
              model_created_at = clock db\<rparr>,
             db\<lparr>rows := rows db @
                   [\<lparr>row_id = next_id db, row_service = service,
                     row_version = select_max_version db service + 1,
                     row_payload =
                       py_setitem payload (PStr ''version'')
                         (PInt (select_max_version db service + 1)),
                     row_created_at = clock db\<rparr>],
                next_id := next_id db + 1\<rparr>))
   \<and> select_max_version db service =
       (if select_service db service = [] then 0
        else Max (row_version ` set (select_service db service)))
   \<and> (py_get payload ''version'' = PInt v \<longrightarrow>
      save_configuration db service payload =
        Inr (\<lparr>model_id = Some (next_id db), model_service = service,
              model_version = PInt v, model_payload = payload,
              model_created_at = clock db\<rparr>,
             db\<lparr>rows := rows db @
                   [\<lparr>row_id = next_id db, row_service = service, row_version = v,
                     row_payload = payload, row_created_at = clock db\<rparr>],
                next_id := next_id db + 1\<rparr>))
   \<and> (\<forall>m db'. save_configuration db service payload = Inr (m, db') \<longrightarrow>
        py_get (model_payload m) ''version'' = model_version m \<and>
        (py_get payload ''version'' \<noteq> PNone \<longrightarrow>
           model_version m = py_get payload ''version'' \<and> model_payload m = payload))"
proof -
  have absent: "py_get payload ''version'' = PNone"
    if "\<not> py_contains payload ''version'' \<or> py_get payload ''version'' = PNone"
    using that by (auto simp: py_contains_def py_get_def)
  have a: ?thesis if "py_get payload ''version'' = PNone"
    using that
    by (auto simp: save_configuration_def insert_configuration_def Let_def
        py_get_py_setitem select_max_version_eq)
  have b: ?thesis if "py_get payload ''version'' \<noteq> PNone"
    using that
    by (auto simp: save_configuration_def insert_configuration_def Let_def
        select_max_version_eq py_contains_def py_get_def split: pyval.splits option.splits)
  from a b show ?thesis by blast
qed

theorem save_configuration_version_witness:
  "\<not> py_contains [(PStr ''name'', PStr ''x'')] ''version''
   \<and> save_configuration sample_db ''auth'' [(PStr ''name'', PStr ''x'')] =
       Inr (\<lparr>model_id = Some 4, model_service = ''auth'', model_version = PInt 3,
             model_payload = [(PStr ''name'', PStr ''x''), (PStr ''version'', PInt 3)],
             model_created_at = 13\<rparr>,
            sample_db\<lparr>rows := rows sample_db @
                   [\<lparr>row_id = 4, row_service = ''auth'', row_version = 3,
                     row_payload = [(PStr ''name'', PStr ''x''), (PStr ''version'', PInt 3)],
                     row_created_at = 13\<rparr>],
                next_id := 5\<rparr>)
   \<and> py_get scenario_a_doc ''version'' = PInt 1
   \<and> save_configuration sample_db ''auth'' scenario_a_doc =
       Inr (\<lparr>model_id = Some 4, model_service = ''auth'', model_version = PInt 1,
             model_payload = scenario_a_doc, model_created_at = 13\<rparr>,
            sample_db\<lparr>rows := rows sample_db @
                   [\<lparr>row_id = 4, row_service = ''auth'', row_version = 1,
                     row_payload = scenario_a_doc, row_created_at = 13\<rparr>],
                next_id := 5\<rparr>)"
proof -
  have m: "select_max_version sample_db ''auth'' = 2"
    by (simp add: select_max_version_def select_service_def sample_db_def)
  have n: "\<not> py_contains [(PStr ''name'', PStr ''x'')] ''version''"
    by (simp add: py_contains_def)
  have v: "py_get scenario_a_doc ''version'' = PInt 1"
    by (simp add: py_get_def scenario_a_doc_def)
  have i: "next_id sample_db = 4" "clock sample_db = 13"
    by (simp_all add: sample_db_def)
  show ?thesis
    using save_configuration_version [of "[(PStr ''name'', PStr ''x'')]" sample_db "''auth''" 1]
      save_configuration_version [of scenario_a_doc sample_db "''auth''" 1] n v
    by (simp add: m i)
qed

text \<open>
  C3 as stated fails on a document that carries \<^verbatim>\<open>version: null\<close>: the value of the
  caller is not used, the store assigns version 1.
\<close>
theorem save_configuration_null_version_counterexample:
  "py_contains null_version_doc ''version''
   \<and> save_configuration empty_db ''auth'' null_version_doc =
       Inr (\<lparr>model_id = Some 1, model_service = ''auth'', model_version = PInt 1,
             model_payload = [(PStr ''version'', PInt 1)], model_created_at = 0\<rparr>,
            \<lparr>rows = [\<lparr>row_id = 1, row_service = ''auth'', row_version = 1,
                      row_payload = [(PStr ''version'', PInt 1)], row_created_at = 0\<rparr>],
             next_id = 2, clock = 0\<rparr>)
   \<and> PInt 1 \<noteq> py_get null_version_doc ''version''"
  by (simp add: py_contains_def py_get_def null_version_doc_def save_configuration_def
      insert_configuration_def select_max_version_def select_service_def empty_db_def Let_def)

text \<open>
  C7 as stated fails after two saves of the same explicit version: the history of the
  service lists version 1 twice, which is not strictly descending.
\<close>
theorem history_duplicates_counterexample:
  "save_configuration empty_db ''auth'' scenario_a_doc =
     Inr (\<lparr>model_id = Some 1, model_service = ''auth'', model_version = PInt 1,
           model_payload = scenario_a_doc, model_created_at = 0\<rparr>,
          \<lparr>rows = [scenario_a_row 1], next_id = 2, clock = 0\<rparr>)
   \<and> save_configuration \<lparr>rows = [scenario_a_row 1], next_id = 2, clock = 0\<rparr>
       ''auth'' scenario_a_doc =
     Inr (\<lparr>model_id = Some 2, model_service = ''auth'', model_version = PInt 1,
           model_payload = scenario_a_doc, model_created_at = 0\<rparr>, duplicate_db)
   \<and> map item_version (get_configuration_history duplicate_db ''auth'') = [1, 1]
   \<and> \<not> sorted_wrt (\<lambda>a b. item_version b < item_version a)
         (get_configuration_history duplicate_db ''auth'')"
  by (simp add: save_configuration_def insert_configuration_def py_get_def scenario_a_doc_def
      scenario_a_row_def duplicate_db_def empty_db_def get_configuration_history_def
      order_by_version_desc_def select_service_def from_db_row_def Let_def)

theorem history_descending_witness:
  "distinct (map row_version (select_service sample_db ''auth''))
   \<and> map item_version (get_configuration_history sample_db ''auth'') = [2, 1]
   \<and> sorted_wrt (\<lambda>a b. item_version b < item_version a)
        (get_configuration_history sample_db ''auth'')
   \<and> select_service sample_db ''unknown-service'' = []
   \<and> get_configuration_history sample_db ''unknown-service'' = []"
proof -
  have d: "distinct (map row_version (select_service sample_db ''auth''))"
    by (simp add: select_service_def sample_db_def)
  have u: "select_service sample_db ''unknown-service'' = []"
    by (simp add: select_service_def sample_db_def)
  have h: "map item_version (get_configuration_history sample_db ''auth'') = [2, 1]"
    by (simp add: get_configuration_history_def order_by_version_desc_def select_service_def
        sample_db_def from_db_row_def)
  from history_descending [of sample_db "''auth''"]
    history_descending [of sample_db "''unknown-service''"] d u h
  show ?thesis by blast
qed

theorem get_configuration_contract_witness:
  "get_configuration sample_db ''auth'' None =
     Some \<lparr>model_id = Some 3, model_service = ''auth'', model_version = PInt 2,
           model_payload = [(PStr ''version'', PInt 2)], model_created_at = 12\<rparr>
   \<and> get_configuration sample_db ''auth'' (Some 1) =
     Some \<lparr>model_id = Some 1, model_service = ''auth'', model_version = PInt 1,
           model_payload = scenario_a_doc, model_created_at = 10\<rparr>
   \<and> \<not> (\<exists>r \<in> set (rows sample_db). row_service r = ''auth'' \<and> row_version r = 7)
   \<and> get_configuration sample_db ''auth'' (Some 7) = None"
proof -
  have n: "\<not> (\<exists>r \<in> set (rows sample_db). row_service r = ''auth'' \<and> row_version r = 7)"
    by (simp add: sample_db_def)
  have "get_configuration sample_db ''auth'' (Some 7) = None"
    using get_configuration_contract [of sample_db "''auth''" 7] n
    by (cases "get_configuration sample_db ''auth'' (Some 7)") auto
  moreover have "get_configuration sample_db ''auth'' None =
     Some \<lparr>model_id = Some 3, model_service = ''auth'', model_version = PInt 2,
           model_payload = [(PStr ''version'', PInt 2)], model_created_at = 12\<rparr>"
    by (simp add: get_configuration_def order_by_version_desc_def select_service_def
        sample_db_def model_of_row_def)
  moreover have "get_configuration sample_db ''auth'' (Some 1) =
     Some \<lparr>model_id = Some 1, model_service = ''auth'', model_version = PInt 1,
           model_payload = scenario_a_doc, model_created_at = 10\<rparr>"
    by (simp add: get_configuration_def select_service_def sample_db_def model_of_row_def)
  ultimately show ?thesis using n by blast
qed

theorem handler_history_not_found_witness:
  "select_service sample_db ''unknown-service'' = []
   \<and> handler_get_configuration_history sample_db ''unknown-service'' =
       \<lparr>data = None,
        error = Some (''No configuration history found for service '' @ [CHR 0x27]
                      @ ''unknown-service'' @ [CHR 0x27]),
        status_code = 404\<rparr>"
proof -
  have e: "select_service sample_db ''unknown-service'' = []"
    by (simp add: select_service_def sample_db_def)
  with handler_history_not_found [of sample_db "''unknown-service''"] show ?thesis by blast
qed

section \<open>Properties of the parser front end\<close>

lemma py_strip_empty: "py_strip s = [] \<longleftrightarrow> (\<forall>c \<in> set s. py_isspace c)"
proof
  assume e: "py_strip s = []"
  show "\<forall>c \<in> set s. py_isspace c"
  proof (rule ccontr)
    assume "\<not> (\<forall>c \<in> set s. py_isspace c)"
    then have n: "dropWhile py_isspace s \<noteq> []" by (simp add: dropWhile_eq_Nil_conv)
    then have "\<not> py_isspace (hd (dropWhile py_isspace s))" by (rule hd_dropWhile)
    moreover have "hd (dropWhile py_isspace s) \<in> set (rev (dropWhile py_isspace s))"
      using n by simp
    moreover from e have "\<forall>c \<in> set (rev (dropWhile py_isspace s)). py_isspace c"
      by (simp add: py_strip_def dropWhile_eq_Nil_conv)
    ultimately show False by blast
  qed
next
  assume "\<forall>c \<in> set s. py_isspace c"
  then have d: "dropWhile py_isspace s = []" by (simp add: dropWhile_eq_Nil_conv)
  show "py_strip s = []" unfolding py_strip_def d by simp
qed

text \<open>
  C8.  \<^verbatim>\<open>parse\<close> on an input that is empty or consists of whitespace only fails with the
  empty-input message; on an input that the YAML library loads to a value that is not a
  dict it fails with the message that the value must represent a dictionary/object.  In
  both cases no document is returned.
\<close>
theorem parse_yaml_empty_and_shape:
  "((\<forall>c \<in> set s. py_isspace c) \<longrightarrow>
      parse_yaml safe_load s = (False, None, Some ''Empty YAML content''))
   \<and> (\<not> (\<forall>c \<in> set s. py_isspace c) \<and> safe_load s = Inr v \<and> \<not> isinstance v TDict \<longrightarrow>
      parse_yaml safe_load s = (False, None, Some ''YAML must represent a dictionary/object''))"
proof (intro conjI impI)
  assume "\<forall>c \<in> set s. py_isspace c"
  then have "py_strip s = []" by (simp add: py_strip_empty)
  then show "parse_yaml safe_load s = (False, None, Some ''Empty YAML content'')"
    by (simp add: parse_yaml_def)
next
  assume a: "\<not> (\<forall>c \<in> set s. py_isspace c) \<and> safe_load s = Inr v \<and> \<not> isinstance v TDict"
  then have "py_strip s \<noteq> []" "s \<noteq> []" by (auto simp: py_strip_empty)
  with a show "parse_yaml safe_load s =
      (False, None, Some ''YAML must represent a dictionary/object'')"
    by (cases v) (simp_all add: parse_yaml_def)
qed

theorem parse_yaml_empty_and_shape_witness:
  "parse_yaml (\<lambda>t. Inr (PList [PInt 1, PInt 2])) [CHR '' '', CHR 0x09, CHR 0x0A] =
     (False, None, Some ''Empty YAML content'')
   \<and> parse_yaml (\<lambda>t. Inr (PList [PInt 1, PInt 2])) ''[1, 2]'' =
     (False, None, Some ''YAML must represent a dictionary/object'')"
proof -
  have w: "\<forall>c \<in> set [CHR '' '', CHR 0x09, CHR 0x0A]. py_isspace c"
    by (simp add: py_isspace_def)
  have n: "\<not> (\<forall>c \<in> set ''[1, 2]''. py_isspace c)"
    by (simp add: py_isspace_def)
  have t: "\<not> isinstance (PList [PInt 1, PInt 2]) TDict" by simp
  from parse_yaml_empty_and_shape
        [of "[CHR '' '', CHR 0x09, CHR 0x0A]" "\<lambda>t. Inr (PList [PInt 1, PInt 2])"] w
    parse_yaml_empty_and_shape
        [of "''[1, 2]''" "\<lambda>t. Inr (PList [PInt 1, PInt 2])" "PList [PInt 1, PInt 2]"] n t
  show ?thesis by blast
qed

section \<open>Properties of the schema validator\<close>

lemma first_error_map_Inr: "first_error (map Inr xs) = Inr xs"
  by (induction xs) simp_all

lemma first_error_Inl: "Inl e \<in> set rs \<Longrightarrow> \<exists>e'. first_error rs = Inl e'"
proof (induction rs)
  case Nil
  then show ?case by simp
next
  case (Cons r rs)
  then show ?case by (cases r) (auto split: sum.splits)
qed


lemma set_coverage: "set [k. Some k \<leftarrow> ms] = {k. Some k \<in> set ms}"
proof (induction ms)
  case Nil
  then show ?case by simp
next
  case (Cons m ms)
  then show ?case by (cases m) auto
qed

lemma set_data_items [simp]:
  "set (sort_key (\<lambda>item. isinstance (snd item) TDict) items) = set items"
  by simp



lemma match_key_required:
  assumes "fst item \<noteq> PStr ''version''"
  shows "match_key [(SLit ''version'', SType TInt), (SOptional (SType TStr), SType TObject)]
           (fst item) (snd item) = Inr (required_match item)"
  using assms by (cases "fst item") (simp_all add: required_match_def)

lemma required_fields_missing_version:
  assumes "PStr ''version'' \<notin> fst ` set d"
  shows "schema_validate REQUIRED_FIELDS_SCHEMA (PDict d) =
           Inl (SchemaMissingKeyError [SLit ''version''])"
proof -
  let ?es = "[(SLit ''version'', SType TInt), (SOptional (SType TStr), SType TObject)]"
  let ?items = "sort_key (\<lambda>item. isinstance (snd item) TDict) d"
  have "\<forall>item \<in> set ?items. fst item \<noteq> PStr ''version''"
    using assms by force
  then have "\<forall>item \<in> set ?items.
      match_key ?es (fst item) (snd item) = Inr (required_match item)"
    using match_key_required by blast
  then have "map (\<lambda>item. match_key ?es (fst item) (snd item)) ?items =
      map Inr (map required_match ?items)"
    unfolding map_map by (intro map_cong refl) simp
  then have fe: "first_error (map (\<lambda>item. match_key ?es (fst item) (snd item)) ?items) =
      Inr (map required_match ?items)"
    by (simp only: first_error_map_Inr)
  have "SLit ''version'' \<notin> set [k. Some k \<leftarrow> map required_match ?items]"
    by (auto simp: set_coverage required_match_def split: pyval.splits)
  with fe show ?thesis
    by (simp add: REQUIRED_FIELDS_SCHEMA_def Let_def)
qed

lemma not_contains_iff: "\<not> py_contains d k \<longleftrightarrow> PStr k \<notin> fst ` set d"
  by (simp add: py_contains_def map_of_eq_None_iff)

lemma validate_config_schema_missing_version:
  assumes "\<not> py_contains config_data ''version''"
  shows "validate_config_schema config_data =
           Inl (ValidationError (SchemaMissingKeyError [SLit ''version'']))"
  using assms required_fields_missing_version [of config_data]
  by (simp add: validate_config_schema_def not_contains_iff)

lemma validate_schema_error:
  assumes "validate_config_schema config_data = Inl e"
    and "py_contains config_data ''database'' \<longrightarrow>
           isinstance (py_get config_data ''database'') TDict"
  shows "\<exists>rest. validate config_data = Inr (False, SchemaMessage e # rest)"
proof (cases "py_contains config_data ''database''")
  case False
  with assms show ?thesis by (simp add: validate_def get_validation_errors_def)
next
  case True
  with assms obtain db where "py_get config_data ''database'' = PDict db"
    by (cases "py_get config_data ''database''") auto
  with assms True show ?thesis
    by (simp add: validate_def get_validation_errors_def Let_def)
qed

text \<open>
  C1, as amended.  For every parsed document with no \<^verbatim>\<open>version\<close> field the schema check
  raises the missing-key error for \<^verbatim>\<open>version\<close>; when the \<^verbatim>\<open>database\<close> field is absent or
  an object, the validator returns the verdict invalid and that error is the first entry
  of the error list.
\<close>
theorem missing_version_is_reported:
  assumes "\<not> py_contains config_data ''version''"
  shows "validate_config_schema config_data =
           Inl (ValidationError (SchemaMissingKeyError [SLit ''version'']))
         \<and> ((py_contains config_data ''database'' \<longrightarrow>
                isinstance (py_get config_data ''database'') TDict) \<longrightarrow>
            (\<exists>rest. validate config_data =
               Inr (False,
                    SchemaMessage (ValidationError (SchemaMissingKeyError [SLit ''version'']))
                    # rest)))"
  using validate_config_schema_missing_version [OF assms]
    validate_schema_error [of config_data]
  by blast

theorem missing_version_is_reported_witness:
  "\<not> py_contains scenario_b_doc ''version''
   \<and> isinstance (py_get scenario_b_doc ''database'') TDict
   \<and> (\<exists>rest. validate scenario_b_doc =
         Inr (False,
              SchemaMessage (ValidationError (SchemaMissingKeyError [SLit ''version'']))
              # rest))"
proof -
  have a: "\<not> py_contains scenario_b_doc ''version''"
    by (simp add: py_contains_def scenario_b_doc_def)
  have b: "isinstance (py_get scenario_b_doc ''database'') TDict"
    by (simp add: py_get_def scenario_b_doc_def)
  from missing_version_is_reported [OF a] a b show ?thesis by blast
qed

text \<open>
  C1 as stated fails on the document \<^verbatim>\<open>{"name": "app"}\<close>: it has no \<^verbatim>\<open>version\<close> field and
  the validator reports it invalid, with the missing-key error for \<^verbatim>\<open>version\<close> as the only
  violation.
\<close>
theorem missing_version_counterexample:
  "\<not> py_contains unversioned_doc ''version''
   \<and> validate unversioned_doc =
       Inr (False, [SchemaMessage (ValidationError (SchemaMissingKeyError [SLit ''version'']))])"
  by (simp add: validate_def get_validation_errors_def validate_config_schema_def
      REQUIRED_FIELDS_SCHEMA_def unversioned_doc_def py_contains_def Let_def)

text \<open>
  C2.  Validating \<^verbatim>\<open>{"database": {"host": "localhost", "port": 99999}}\<close> gives the verdict
  invalid with two errors in one list: the missing-key error for \<^verbatim>\<open>version\<close> and the port
  range message.
\<close>
theorem scenario_b_errors:
  "validate scenario_b_doc =
     Inr (False,
          [SchemaMessage (ValidationError (SchemaMissingKeyError [SLit ''version''])),
           Message ''database.port must be an integer between 1 and 65535''])"
  by (simp add: validate_def get_validation_errors_def validate_config_schema_def
      REQUIRED_FIELDS_SCHEMA_def scenario_b_doc_def py_contains_def py_get_def Let_def)









section \<open>Properties of the template renderer\<close>

lemma map_of_py_setitem_upd: "map_of (py_setitem d k v) = (map_of d)(k \<mapsto> v)"
  by (induction d) (auto simp: fun_eq_iff)

lemma map_of_dict_merge:
  "distinct (map fst b) \<Longrightarrow>
     map_of (dict_merge a b) k = (case map_of b k of Some v \<Rightarrow> Some v | None \<Rightarrow> map_of a k)"
proof (induction b arbitrary: a)
  case Nil
  then show ?case by (simp add: dict_merge_def)
next
  case (Cons p b)
  obtain k1 v1 where p: "p = (k1, v1)" by (cases p)
  from Cons.prems have d: "distinct (map fst b)" and n: "k1 \<notin> fst ` set b" by (auto simp: p)
  have "dict_merge a (p # b) = dict_merge (py_setitem a k1 v1) b"
    by (simp add: dict_merge_def p)
  then have "map_of (dict_merge a (p # b)) k =
      (case map_of b k of Some v \<Rightarrow> Some v | None \<Rightarrow> map_of (py_setitem a k1 v1) k)"
    using Cons.IH [OF d] by simp
  also have "\<dots> = (case map_of (p # b) k of Some v \<Rightarrow> Some v | None \<Rightarrow> map_of a k)"
  proof (cases "k = k1")
    case True
    moreover have "map_of b k1 = None" using n by (simp add: map_of_eq_None_iff)
    ultimately show ?thesis by (simp add: p map_of_py_setitem_upd)
  next
    case False
    then show ?thesis by (simp add: p map_of_py_setitem_upd split: option.splits)
  qed
  finally show ?case .
qed

lemma scenario_d_eval:
  "process_template_request scenario_d_doc [(''user'', ''alice'')] =
     Inr (PDict [(PStr ''welcome_message'', PStr ''Hello alice!'')])"
  by code_simp

lemma template_context_lookup:
  assumes "distinct (map fst template_params)"
  shows "map_of (template_context template_params) k =
     (case map_of template_params k of
        Some v \<Rightarrow> Some v
      | None \<Rightarrow> map_of [(''user'', ''anonymous''), (''env'', ''development''),
                          (''timestamp'', [])] k)"
  using map_of_dict_merge [OF assms]
  by (auto simp: template_context_def Let_def get_default_def split: option.splits)

subsection \<open>Plain text passes the template engine\<close>

lemma starts_with_two:
  "starts_with [a, b] s \<longleftrightarrow> (\<exists>r. s = a # b # r)"
  by (cases s rule: find_tag.cases) auto





subsection \<open>The serialisation has no carriage return\<close>











subsection \<open>\<^verbatim>\<open>json.loads\<close> reads back what \<^verbatim>\<open>json.dumps\<close> wrote\<close>

paragraph \<open>Whitespace\<close>

lemma skip_ws_Nil [simp]: "skip_ws [] = []"
  by (simp add: skip_ws_def)




paragraph \<open>Strings\<close>





paragraph \<open>Integers\<close>















paragraph \<open>Dicts\<close>




paragraph \<open>Single steps of the reader\<close>



















paragraph \<open>Composition\<close>

declare scan_once.simps [simp del] json_array.simps [simp del] json_object.simps [simp del]















text \<open>
  C9.  The context handed to the renderer is the merge of the defaults \<^verbatim>\<open>user\<close>, \<^verbatim>\<open>env\<close>
  and \<^verbatim>\<open>timestamp\<close> (\<^verbatim>\<open>anonymous\<close>, \<^verbatim>\<open>development\<close> and the empty string) with the
  parameters of the caller, whose values win key by key; rendering
  \<^verbatim>\<open>{"welcome_message": "Hello {{ user }}!"}\<close> with \<^verbatim>\<open>user = alice\<close> gives
  \<^verbatim>\<open>{"welcome_message": "Hello alice!"}\<close>.
\<close>

theorem template_context_merge:
  "(distinct (map fst template_params) \<longrightarrow>
      map_of (template_context template_params) k =
        (case map_of template_params k of
           Some v \<Rightarrow> Some v
         | None \<Rightarrow> map_of [(''user'', ''anonymous''), (''env'', ''development''),
                             (''timestamp'', [])] k))
   \<and> process_template_request config_data template_params =
       render_config_template config_data (template_context template_params)
   \<and> process_template_request scenario_d_doc [(''user'', ''alice'')] =
       Inr (PDict [(PStr ''welcome_message'', PStr ''Hello alice!'')])"
  using template_context_lookup [of template_params k] scenario_d_eval
  by (simp add: process_template_request_def)

theorem template_context_merge_witness:
  "distinct (map fst [(''user'', ''alice''), (''region'', ''eu'')])
   \<and> map_of (template_context [(''user'', ''alice''), (''region'', ''eu'')]) ''user'' = Some ''alice''
   \<and> map_of (template_context [(''user'', ''alice''), (''region'', ''eu'')]) ''env'' =
       Some ''development''
   \<and> map_of (template_context [(''user'', ''alice''), (''region'', ''eu'')]) ''region'' = Some ''eu''"
proof -
  have d: "distinct (map fst [(''user'', ''alice''), (''region'', ''eu'')])" by simp
  from template_context_merge [of "[(''user'', ''alice''), (''region'', ''eu'')]" "''user''"]
    template_context_merge [of "[(''user'', ''alice''), (''region'', ''eu'')]" "''env''"]
    template_context_merge [of "[(''user'', ''alice''), (''region'', ''eu'')]" "''region''"] d
  show ?thesis by simp
qed





end
